theory Spec2Isabelle
  imports Complex_Main
begin

section \<open>The PostgreSQL tool server: role gate and checkpoint sessions\<close>

text \<open>
  The development embeds the permission gate, the \<open>checkpoint\<close> tool and the \<open>query\<close>
  tool of the PostgreSQL server (the module that defines \<open>databaseRoles\<close>,
  \<open>checkPermissions\<close> and \<open>createServer\<close>). Each tool handler is an \<open>async\<close> function;
  it is modelled as one atomic step that runs to completion, so the interleaving of two
  handlers at an \<open>await\<close> is outside the model.
\<close>

subsection \<open>JavaScript strings\<close>

text \<open>
  A JavaScript string is a sequence of UTF-16 code units. A code unit is a natural number
  (below 65536 in every string the runtime builds); \<open>js\<close> writes a literal.
\<close>

type_synonym code_unit = nat
type_synonym jsstring = "code_unit list"

definition js :: "string \<Rightarrow> jsstring" where
  "js s = map of_char s"

text \<open>
  The characters that \<open>String.prototype.trim\<close> strips and that \<open>\s\<close> matches in a regular
  expression: ECMAScript's WhiteSpace and LineTerminator productions.
\<close>

definition isWhiteSpace :: "code_unit \<Rightarrow> bool" where
  "isWhiteSpace c \<longleftrightarrow>
     c = 9 \<or> c = 10 \<or> c = 11 \<or> c = 12 \<or> c = 13 \<or> c = 32 \<or> c = 160 \<or> c = 5760 \<or>
     (8192 \<le> c \<and> c \<le> 8202) \<or> c = 8232 \<or> c = 8233 \<or> c = 8239 \<or> c = 8287 \<or>
     c = 12288 \<or> c = 65279"

definition trim :: "jsstring \<Rightarrow> jsstring" where
  "trim s = rev (dropWhile isWhiteSpace (rev (dropWhile isWhiteSpace s)))"

text \<open>The character class \<open>[\s;]\<close> of the separator regular expression.\<close>

definition isSeparator :: "code_unit \<Rightarrow> bool" where
  "isSeparator c \<longleftrightarrow> isWhiteSpace c \<or> c = 59"

text \<open>
  \<open>String.prototype.split\<close> with a separator that matches exactly one code unit of a class:
  the pieces between the separators, empty pieces kept, and the one piece \<open>""\<close> for the
  empty string.
\<close>

fun split :: "(code_unit \<Rightarrow> bool) \<Rightarrow> jsstring \<Rightarrow> jsstring list" where
  "split sep [] = [[]]"
| "split sep (c # cs) =
     (if sep c then [] # split sep cs
      else (case split sep cs of
              [] \<Rightarrow> [[c]]
            | w # ws \<Rightarrow> (c # w) # ws))"

text \<open>Reading element 0 of an array: \<open>None\<close> stands for \<open>undefined\<close>.\<close>

definition element0 :: "'a list \<Rightarrow> 'a option" where
  "element0 xs = (case xs of [] \<Rightarrow> None | x # _ \<Rightarrow> Some x)"

text \<open>
  \<open>sql.trim().toUpperCase().split(/[\s;]/)[0]\<close>. The Unicode upper-case mapping of the
  runtime is the parameter \<open>up\<close>.
\<close>

definition leading_command :: "(jsstring \<Rightarrow> jsstring) \<Rightarrow> jsstring \<Rightarrow> jsstring option" where
  "leading_command up sql = element0 (split isSeparator (up (trim sql)))"

text \<open>
  An upper-case mapping for the examples: it agrees with \<open>toUpperCase\<close> on every string of
  ASCII code units.
\<close>

definition asciiUpper :: "jsstring \<Rightarrow> jsstring" where
  "asciiUpper s = map (\<lambda>c. if 97 \<le> c \<and> c \<le> 122 then c - 32 else c) s"

subsection \<open>Roles and the permission gate\<close>

datatype role = Read | Insert | Write | Admin

fun databaseRoles :: "role \<Rightarrow> jsstring list" where
  "databaseRoles Read = [js ''SELECT'']"
| "databaseRoles Insert = [js ''SELECT'', js ''INSERT'']"
| "databaseRoles Write = [js ''SELECT'', js ''INSERT'', js ''UPDATE'', js ''DELETE'']"
| "databaseRoles Admin =
     [js ''SELECT'', js ''INSERT'', js ''UPDATE'', js ''DELETE'',
      js ''TRUNCATE'', js ''CREATE'', js ''ALTER'', js ''DROP'']"

definition readCommands :: "jsstring list" where
  "readCommands = [js ''SELECT'', js ''WITH'', js ''SHOW'', js ''EXPLAIN'']"

text \<open>\<open>xs.includes(v)\<close> for a value \<open>v\<close> that may be \<open>undefined\<close>.\<close>

definition array_includes :: "jsstring list \<Rightarrow> jsstring option \<Rightarrow> bool" where
  "array_includes xs v = (case v of None \<Rightarrow> False | Some s \<Rightarrow> s \<in> set xs)"

text \<open>The first half of \<open>checkPermissions\<close>: the privilege that the command requires.\<close>

definition requiredPrivilege :: "(jsstring \<Rightarrow> jsstring) \<Rightarrow> jsstring \<Rightarrow> jsstring option" where
  "requiredPrivilege up sql =
     (let command = leading_command up sql in
      if array_includes readCommands command then Some (js ''SELECT'')
      else if command = Some (js ''RENAME'') then Some (js ''ALTER'')
      else command)"

subsection \<open>Errors, numbers and the database collaborator\<close>

text \<open>An error object thrown by the database driver, with its message.\<close>

datatype pg_error = PgError jsstring

text \<open>
  The optional tool argument \<open>checkpointId\<close> is a JavaScript number: a finite value
  (a rational), one of the two infinities, or \<open>NaN\<close>. Checkpoint ids are produced by the
  counter and are natural numbers.
\<close>

datatype number = NaN | NegInf | Fin rat | PosInf

text \<open>\<open>!checkpointId\<close>: true for \<open>undefined\<close>, zero and \<open>NaN\<close>.\<close>

fun falsy :: "number option \<Rightarrow> bool" where
  "falsy None = True"
| "falsy (Some NaN) = True"
| "falsy (Some (Fin q)) = (q = 0)"
| "falsy (Some _) = False"

text \<open>\<open>cp.id === checkpointId\<close> and \<open>cp.id <= checkpointId\<close> for an id \<open>i\<close>.\<close>

fun id_equals :: "nat \<Rightarrow> number option \<Rightarrow> bool" where
  "id_equals i (Some (Fin q)) = (of_nat i = q)"
| "id_equals i _ = False"

fun id_le :: "nat \<Rightarrow> number option \<Rightarrow> bool" where
  "id_le i (Some (Fin q)) = (of_nat i \<le> q)"
| "id_le i (Some PosInf) = True"
| "id_le i _ = False"

datatype error =
    PermissionDenied "jsstring option" "jsstring option" "jsstring list"
  | NoActiveSession
  | CheckpointIdRequired
  | CheckpointNotFound "number option"
  | Thrown pg_error

type_synonym client = nat

datatype statement =
    BEGIN
  | BEGIN_TRANSACTION_READ_ONLY
  | COMMIT
  | ROLLBACK
  | SAVEPOINT nat
  | ROLLBACK_TO_SAVEPOINT "number option"
  | SQL jsstring

record query_result =
  rows :: "jsstring list"
  rowCount :: "nat option"

text \<open>
  What the server does to the outside, in order: a call of \<open>pool.connect\<close>, a statement
  sent on a client, the release of a client, a warning on the console.
\<close>

datatype event =
    PoolConnect
  | Query client statement
  | Release client
  | Warn pg_error

text \<open>
  The collaborators. The pool, the database and the clock answer as they like; each
  answer may depend on everything that happened before. \<open>toUpperCase\<close> is the upper-case
  mapping of the runtime.
\<close>

record world =
  toUpperCase :: "jsstring \<Rightarrow> jsstring"
  pool_connect :: "event list \<Rightarrow> pg_error + client"
  client_query :: "event list \<Rightarrow> client \<Rightarrow> statement \<Rightarrow> pg_error + query_result"
  now :: "event list \<Rightarrow> jsstring"

subsection \<open>Server state\<close>

record checkpoint_entry =
  cp_id :: nat
  cp_query :: jsstring
  cp_timestamp :: jsstring

text \<open>
  The four variables of \<open>createServer\<close> and the trace of events so far. The counter is a
  natural number: a JavaScript number counts exactly up to \<open>2 ^ 53\<close>, which no session
  reaches.
\<close>

record server =
  sessionClient :: "client option"
  checkpointMode :: bool
  checkpointHistory :: "checkpoint_entry list"
  checkpointCounter :: nat
  trace :: "event list"

definition initial :: server where
  "initial = \<lparr>sessionClient = None, checkpointMode = False, checkpointHistory = [],
              checkpointCounter = 0, trace = []\<rparr>"

definition emit :: "event \<Rightarrow> server \<Rightarrow> server" where
  "emit e s = s\<lparr>trace := trace s @ [e]\<rparr>"

text \<open>\<open>await client.query(q)\<close>: the answer of the database, and the statement on the trace.\<close>

definition send :: "world \<Rightarrow> client \<Rightarrow> statement \<Rightarrow> server \<Rightarrow> (pg_error + query_result) \<times> server" where
  "send w c q s = (client_query w (trace s) c q, emit (Query c q) s)"

text \<open>\<open>await pool.connect()\<close>.\<close>

definition connect :: "world \<Rightarrow> server \<Rightarrow> (pg_error + client) \<times> server" where
  "connect w s = (pool_connect w (trace s), emit PoolConnect s)"

text \<open>The condition \<open>checkpointMode && sessionClient\<close> of the handlers.\<close>

definition active_client :: "server \<Rightarrow> client option" where
  "active_client s = (if checkpointMode s then sessionClient s else None)"

text \<open>
  \<open>checkPermissions\<close>: \<open>Some e\<close> when it throws \<open>e\<close>, \<open>None\<close> when it returns. The error
  carries the three values that its message prints.
\<close>

definition checkPermissions :: "(jsstring \<Rightarrow> jsstring) \<Rightarrow> jsstring \<Rightarrow> jsstring list \<Rightarrow> error option" where
  "checkPermissions up sql grantedPrivileges =
     (let command = leading_command up sql;
          required = requiredPrivilege up sql
      in if \<not> array_includes grantedPrivileges required
         then Some (PermissionDenied command required grantedPrivileges)
         else None)"

subsection \<open>The checkpoint tool\<close>

datatype action = Start | List | Rollback | Commit | Discard

text \<open>The text of a successful tool response, by its shape.\<close>

datatype response =
    AlreadyActive
  | Started
  | NoSessionInfo
  | NoCheckpointsYet
  | Checkpoints "checkpoint_entry list"
  | RolledBack "number option" jsstring
  | Committed nat
  | Discarded nat
  | RowsText "jsstring list"
  | CommandSuccessful "jsstring option" nat

type_synonym outcome = "(error + response) \<times> server"

definition checkpoint_start :: "world \<Rightarrow> server \<Rightarrow> outcome" where
  "checkpoint_start w s =
     (if checkpointMode s then (Inr AlreadyActive, s)
      else (case connect w s of
              (Inl e, s1) \<Rightarrow> (Inl (Thrown e), s1)
            | (Inr c, s1) \<Rightarrow>
                (let s2 = s1\<lparr>sessionClient := Some c\<rparr> in
                 case send w c BEGIN s2 of
                   (Inl e, s3) \<Rightarrow> (Inl (Thrown e), s3)
                 | (Inr _, s3) \<Rightarrow>
                     (Inr Started,
                      s3\<lparr>checkpointMode := True, checkpointHistory := [],
                         checkpointCounter := 0\<rparr>))))"

definition checkpoint_list :: "server \<Rightarrow> outcome" where
  "checkpoint_list s =
     (if \<not> checkpointMode s then (Inr NoSessionInfo, s)
      else if length (checkpointHistory s) = 0 then (Inr NoCheckpointsYet, s)
      else (Inr (Checkpoints (checkpointHistory s)), s))"

definition checkpoint_rollback :: "world \<Rightarrow> number option \<Rightarrow> server \<Rightarrow> outcome" where
  "checkpoint_rollback w checkpointId s =
     (case active_client s of
        None \<Rightarrow> (Inl NoActiveSession, s)
      | Some c \<Rightarrow>
          if falsy checkpointId then (Inl CheckpointIdRequired, s)
          else (case find (\<lambda>cp. id_equals (cp_id cp) checkpointId) (checkpointHistory s) of
                  None \<Rightarrow> (Inl (CheckpointNotFound checkpointId), s)
                | Some cp \<Rightarrow>
                    (case send w c (ROLLBACK_TO_SAVEPOINT checkpointId) s of
                       (Inl e, s1) \<Rightarrow> (Inl (Thrown e), s1)
                     | (Inr _, s1) \<Rightarrow>
                         (Inr (RolledBack checkpointId (cp_query cp)),
                          s1\<lparr>checkpointHistory :=
                               filter (\<lambda>cp. id_le (cp_id cp) checkpointId)
                                 (checkpointHistory s1)\<rparr>))))"

text \<open>
  Commit and discard differ in the statement they send and in the text they answer with.
\<close>

definition checkpoint_end :: "world \<Rightarrow> statement \<Rightarrow> (nat \<Rightarrow> response) \<Rightarrow> server \<Rightarrow> outcome" where
  "checkpoint_end w q answer s =
     (case active_client s of
        None \<Rightarrow> (Inl NoActiveSession, s)
      | Some c \<Rightarrow>
          (case send w c q s of
             (Inl e, s1) \<Rightarrow> (Inl (Thrown e), s1)
           | (Inr _, s1) \<Rightarrow>
               (let s2 = emit (Release c) s1;
                    s3 = s2\<lparr>sessionClient := None, checkpointMode := False\<rparr>;
                    count = length (checkpointHistory s3)
                in (Inr (answer count),
                    s3\<lparr>checkpointHistory := [], checkpointCounter := 0\<rparr>))))"

text \<open>
  The handler of the \<open>checkpoint\<close> tool. The input schema admits the five actions only, so
  the final \<open>throw\<close> of the handler (unknown action) has no input.
\<close>

fun checkpoint :: "world \<Rightarrow> action \<Rightarrow> number option \<Rightarrow> server \<Rightarrow> outcome" where
  "checkpoint w Start checkpointId s = checkpoint_start w s"
| "checkpoint w List checkpointId s = checkpoint_list s"
| "checkpoint w Rollback checkpointId s = checkpoint_rollback w checkpointId s"
| "checkpoint w Commit checkpointId s = checkpoint_end w COMMIT Committed s"
| "checkpoint w Discard checkpointId s = checkpoint_end w ROLLBACK Discarded s"

subsection \<open>The query tool\<close>

definition writeCommands :: "jsstring list" where
  "writeCommands =
     [js ''INSERT'', js ''UPDATE'', js ''DELETE'', js ''TRUNCATE'',
      js ''CREATE'', js ''ALTER'', js ''DROP'', js ''RENAME'']"

text \<open>
  The response text: the rows when there are some, otherwise the command and
  \<open>result.rowCount || 0\<close>.
\<close>

definition responseText :: "jsstring option \<Rightarrow> query_result \<Rightarrow> response" where
  "responseText command result =
     (if length (rows result) > 0 then RowsText (rows result)
      else CommandSuccessful command (case rowCount result of None \<Rightarrow> 0 | Some n \<Rightarrow> n))"

text \<open>The branch taken in checkpoint mode, on the client of the session.\<close>

definition query_in_session :: "world \<Rightarrow> client \<Rightarrow> jsstring \<Rightarrow> jsstring option \<Rightarrow> bool \<Rightarrow> server \<Rightarrow> outcome" where
  "query_in_session w c sql command isWrite s =
     (case send w c (SQL sql) s of
        (Inl e, s1) \<Rightarrow> (Inl (Thrown e), s1)
      | (Inr result, s1) \<Rightarrow>
          if isWrite then
            (let s2 = s1\<lparr>checkpointCounter := checkpointCounter s1 + 1\<rparr>;
                 checkpointId = checkpointCounter s2
             in case send w c (SAVEPOINT checkpointId) s2 of
                  (Inl e, s3) \<Rightarrow> (Inl (Thrown e), s3)
                | (Inr _, s3) \<Rightarrow>
                    (Inr (responseText command result),
                     s3\<lparr>checkpointHistory := checkpointHistory s3 @
                          [\<lparr>cp_id = checkpointId, cp_query = sql,
                            cp_timestamp = now w (trace s3)\<rparr>]\<rparr>))
          else (Inr (responseText command result), s1))"

text \<open>The body of the \<open>try\<close> block of normal mode: begin, run, commit.\<close>

definition transaction :: "world \<Rightarrow> bool \<Rightarrow> client \<Rightarrow> jsstring \<Rightarrow> jsstring option \<Rightarrow> server \<Rightarrow> (pg_error + response) \<times> server" where
  "transaction w isReadOnly c sql command s =
     (case send w c (if isReadOnly then BEGIN_TRANSACTION_READ_ONLY else BEGIN) s of
        (Inl e, s1) \<Rightarrow> (Inl e, s1)
      | (Inr _, s1) \<Rightarrow>
          (case send w c (SQL sql) s1 of
             (Inl e, s2) \<Rightarrow> (Inl e, s2)
           | (Inr result, s2) \<Rightarrow>
               (case send w c COMMIT s2 of
                  (Inl e, s3) \<Rightarrow> (Inl e, s3)
                | (Inr _, s3) \<Rightarrow> (Inr (responseText command result), s3))))"

text \<open>
  Normal mode: \<open>try\<close> the transaction; \<open>catch\<close> sends \<open>ROLLBACK\<close>, warns when that fails and
  throws the error it caught; \<open>finally\<close> releases the client.
\<close>

definition query_auto_commit :: "world \<Rightarrow> bool \<Rightarrow> jsstring \<Rightarrow> jsstring option \<Rightarrow> server \<Rightarrow> outcome" where
  "query_auto_commit w isReadOnly sql command s =
     (case connect w s of
        (Inl e, s1) \<Rightarrow> (Inl (Thrown e), s1)
      | (Inr c, s1) \<Rightarrow>
          (case transaction w isReadOnly c sql command s1 of
             (Inr text, s2) \<Rightarrow> (Inr text, emit (Release c) s2)
           | (Inl error, s2) \<Rightarrow>
               (case send w c ROLLBACK s2 of
                  (Inl rollbackError, s3) \<Rightarrow>
                    (Inl (Thrown error), emit (Release c) (emit (Warn rollbackError) s3))
                | (Inr _, s3) \<Rightarrow> (Inl (Thrown error), emit (Release c) s3))))"

text \<open>The handler of the \<open>query\<close> tool for the configured role.\<close>

definition query_tool :: "world \<Rightarrow> role \<Rightarrow> jsstring \<Rightarrow> server \<Rightarrow> outcome" where
  "query_tool w r sql s =
     (case checkPermissions (toUpperCase w) sql (databaseRoles r) of
        Some e \<Rightarrow> (Inl e, s)
      | None \<Rightarrow>
          (let command = leading_command (toUpperCase w) sql;
               isWrite = array_includes writeCommands command
           in case active_client s of
                Some c \<Rightarrow> query_in_session w c sql command isWrite s
              | None \<Rightarrow> query_auto_commit w (r = Read) sql command s))"

subsection \<open>Runs of the server\<close>

datatype call = CheckpointCall action "number option" | QueryCall jsstring

fun handle :: "world \<Rightarrow> role \<Rightarrow> call \<Rightarrow> server \<Rightarrow> outcome" where
  "handle w r (CheckpointCall a checkpointId) s = checkpoint w a checkpointId s"
| "handle w r (QueryCall sql) s = query_tool w r sql s"

text \<open>The state after a sequence of calls, each run to completion, from a state \<open>s\<close>.\<close>

fun run :: "world \<Rightarrow> role \<Rightarrow> call list \<Rightarrow> server \<Rightarrow> server" where
  "run w r [] s = s"
| "run w r (c # cs) s = run w r cs (snd (handle w r c s))"

subsection \<open>Worlds and calls for the examples\<close>

definition new_year :: jsstring where
  "new_year = js ''2024-01-01T00:00:00.000Z''"

text \<open>
  A world where nothing fails: ASCII upper-casing, a pool that hands out client 1, a
  database that accepts every statement and returns no rows, a clock that stands still.
\<close>

definition calm :: world where
  "calm = \<lparr>toUpperCase = asciiUpper,
           pool_connect = (\<lambda>_. Inr 1),
           client_query = (\<lambda>_ _ _. Inr \<lparr>rows = [], rowCount = Some 1\<rparr>),
           now = (\<lambda>_. new_year)\<rparr>"

text \<open>
  A world where the database rejects every SQL text of the caller and every \<open>ROLLBACK\<close>,
  with two different errors.
\<close>

definition stormy :: world where
  "stormy = \<lparr>toUpperCase = asciiUpper,
             pool_connect = (\<lambda>_. Inr 1),
             client_query =
               (\<lambda>_ _ q. case q of
                           SQL _ \<Rightarrow> Inl (PgError (js ''syntax error''))
                         | ROLLBACK \<Rightarrow> Inl (PgError (js ''connection lost''))
                         | _ \<Rightarrow> Inr \<lparr>rows = [], rowCount = None\<rparr>),
             now = (\<lambda>_. new_year)\<rparr>"

definition insert_sql :: jsstring where
  "insert_sql = js ''insert into t values (1)''"

definition update_sql :: jsstring where
  "update_sql = js ''update t set a = 2''"

text \<open>Start a session and write twice; the same, followed by a rollback to checkpoint 1.\<close>

definition two_writes :: "call list" where
  "two_writes = [CheckpointCall Start None, QueryCall insert_sql, QueryCall update_sql]"



text \<open>Start a session and write five times.\<close>

definition five_writes :: "call list" where
  "five_writes =
     [CheckpointCall Start None, QueryCall insert_sql, QueryCall insert_sql,
      QueryCall insert_sql, QueryCall insert_sql, QueryCall insert_sql]"

subsection \<open>The classifier as the specification words it\<close>

text \<open>
  Following the specification, not the code: the first token of a text is what stands
  before its first whitespace or semicolon.
\<close>

definition first_token :: "jsstring \<Rightarrow> jsstring" where
  "first_token s = takeWhile (\<lambda>c. \<not> isSeparator c) s"

text \<open>
  Following the specification: the token of the trimmed, upper-cased text, with
  \<open>SELECT\<close>, \<open>WITH\<close>, \<open>SHOW\<close>, \<open>EXPLAIN\<close> mapped to \<open>SELECT\<close>, \<open>RENAME\<close> to \<open>ALTER\<close>, and every
  other token standing for itself.
\<close>

definition spec_privilege :: "(jsstring \<Rightarrow> jsstring) \<Rightarrow> jsstring \<Rightarrow> jsstring" where
  "spec_privilege up sql =
     (let token = first_token (up (trim sql)) in
      if token = js ''SELECT'' \<or> token = js ''WITH'' \<or> token = js ''SHOW'' \<or>
         token = js ''EXPLAIN'' then js ''SELECT''
      else if token = js ''RENAME'' then js ''ALTER''
      else token)"

subsection \<open>The invariant of the checkpoint history\<close>




section \<open>Properties\<close>

subsection \<open>Evaluation\<close>

lemmas string_eval = js_def asciiUpper_def trim_def isWhiteSpace_def isSeparator_def
  leading_command_def element0_def requiredPrivilege_def array_includes_def readCommands_def

lemmas step_defs = checkpoint_start_def checkpoint_list_def checkpoint_rollback_def
  checkpoint_end_def connect_def send_def emit_def active_client_def Let_def

lemma insert_command: "leading_command asciiUpper insert_sql = Some (js ''INSERT'')"
  by (simp add: insert_sql_def string_eval)

lemma update_command: "leading_command asciiUpper update_sql = Some (js ''UPDATE'')"
  by (simp add: update_sql_def string_eval)

lemma permitted:
  assumes "leading_command up sql = Some cmd"
    and "cmd \<notin> set readCommands" and "cmd \<noteq> js ''RENAME''"
    and "cmd \<in> set granted"
  shows "checkPermissions up sql granted = None"
  using assms by (simp add: checkPermissions_def requiredPrivilege_def array_includes_def)

lemma insert_permitted: "checkPermissions asciiUpper insert_sql (databaseRoles Write) = None"
  by (rule permitted [OF insert_command]) (simp_all add: readCommands_def js_def)

lemma update_permitted: "checkPermissions asciiUpper update_sql (databaseRoles Write) = None"
  by (rule permitted [OF update_command]) (simp_all add: readCommands_def js_def)

text \<open>One call in the calm world, on any state.\<close>

lemma calm_start:
  assumes "\<not> checkpointMode s"
  shows "checkpoint_start calm s =
     (Inr Started,
      s\<lparr>sessionClient := Some 1, checkpointMode := True, checkpointHistory := [],
        checkpointCounter := 0, trace := trace s @ [PoolConnect, Query 1 BEGIN]\<rparr>)"
  using assms by (simp add: checkpoint_start_def connect_def send_def emit_def calm_def)

lemma calm_write:
  assumes "active_client s = Some 1"
    and "leading_command asciiUpper sql = Some cmd"
    and "checkPermissions asciiUpper sql (databaseRoles r) = None"
    and "cmd \<in> set writeCommands"
  shows "query_tool calm r sql s =
     (Inr (CommandSuccessful (Some cmd) 1),
      s\<lparr>checkpointHistory := checkpointHistory s @
           [\<lparr>cp_id = checkpointCounter s + 1, cp_query = sql, cp_timestamp = new_year\<rparr>],
        checkpointCounter := checkpointCounter s + 1,
        trace := trace s @ [Query 1 (SQL sql), Query 1 (SAVEPOINT (checkpointCounter s + 1))]\<rparr>)"
proof -
  have up: "toUpperCase calm = asciiUpper"
    by (simp add: calm_def)
  show ?thesis
    using assms
    by (simp add: query_tool_def up array_includes_def query_in_session_def send_def emit_def
        responseText_def calm_def)
qed

lemmas calm_insert = calm_write [OF _ insert_command insert_permitted]
lemmas calm_update = calm_write [OF _ update_command update_permitted]

lemma write_commands: "js ''INSERT'' \<in> set writeCommands" "js ''UPDATE'' \<in> set writeCommands"
  by (simp_all add: writeCommands_def js_def)

lemmas calm_eval = run.simps handle.simps calm_start calm_insert calm_update write_commands
  active_client_def initial_def

lemma two_writes_state:
  "run calm Write two_writes initial =
     \<lparr>sessionClient = Some 1, checkpointMode = True,
      checkpointHistory =
        [\<lparr>cp_id = 1, cp_query = insert_sql, cp_timestamp = new_year\<rparr>,
         \<lparr>cp_id = 2, cp_query = update_sql, cp_timestamp = new_year\<rparr>],
      checkpointCounter = 2,
      trace = [PoolConnect, Query 1 BEGIN, Query 1 (SQL insert_sql), Query 1 (SAVEPOINT 1),
               Query 1 (SQL update_sql), Query 1 (SAVEPOINT 2)]\<rparr>"
  by (simp add: two_writes_def calm_eval)

subsection \<open>The classifier and the gate\<close>

lemma split_first: "\<exists>ws. split sep s = takeWhile (\<lambda>c. \<not> sep c) s # ws"
  by (induction s) (auto split: list.splits)

lemma leading_command_token: "leading_command up sql = Some (first_token (up (trim sql)))"
proof -
  obtain ws where "split isSeparator (up (trim sql)) = first_token (up (trim sql)) # ws"
    unfolding first_token_def using split_first by blast
  then show ?thesis
    by (simp add: leading_command_def element0_def)
qed

text \<open>
  C2. For every SQL text the required privilege is defined (never \<open>undefined\<close>, no error)
  and is the first whitespace- or semicolon-delimited token of the trimmed, upper-cased
  text, remapped: \<open>SELECT\<close>, \<open>WITH\<close>, \<open>SHOW\<close> and \<open>EXPLAIN\<close> require \<open>SELECT\<close>, \<open>RENAME\<close>
  requires \<open>ALTER\<close>, every other token requires itself.
\<close>

theorem requiredPrivilege_is_first_token_remapped:
  "requiredPrivilege up sql = Some (spec_privilege up sql)"
  by (simp add: requiredPrivilege_def spec_privilege_def leading_command_token
      array_includes_def readCommands_def Let_def)

text \<open>
  C1. For every role and every SQL text whose required privilege the role does not
  grant, the \<open>query\<close> tool fails with the permission-denied error and returns the server
  as it was: the trace is unchanged, so \<open>pool.connect\<close> was not called and no statement
  was sent.
\<close>

theorem denied_query_never_contacts_database:
  assumes "requiredPrivilege (toUpperCase w) sql = Some p"
    and "p \<notin> set (databaseRoles r)"
  shows "query_tool w r sql s =
           (Inl (PermissionDenied (leading_command (toUpperCase w) sql) (Some p)
                   (databaseRoles r)), s)"
  using assms
  by (simp add: query_tool_def checkPermissions_def array_includes_def)

theorem denied_query_never_contacts_database_witness:
  "requiredPrivilege (toUpperCase calm) (js ''delete from t'') = Some (js ''DELETE'') \<and>
   js ''DELETE'' \<notin> set (databaseRoles Insert) \<and>
   query_tool calm Insert (js ''delete from t'') initial =
     (Inl (PermissionDenied (Some (js ''DELETE'')) (Some (js ''DELETE''))
             (databaseRoles Insert)), initial)"
proof -
  have req: "requiredPrivilege (toUpperCase calm) (js ''delete from t'') = Some (js ''DELETE'')"
    by (simp add: calm_def string_eval)
  have cmd: "leading_command (toUpperCase calm) (js ''delete from t'') = Some (js ''DELETE'')"
    by (simp add: calm_def string_eval)
  have out: "js ''DELETE'' \<notin> set (databaseRoles Insert)"
    by (simp add: js_def)
  show ?thesis
    using denied_query_never_contacts_database [OF req out, of initial] req out cmd
    by simp
qed

subsection \<open>The checkpoint tool, one call at a time\<close>

lemma find_absent: "find P xs = None \<longleftrightarrow> (\<forall>x\<in>set xs. \<not> P x)"
  by (induction xs) auto

lemma falsy_iff: "falsy k \<longleftrightarrow> k = None \<or> k = Some NaN \<or> k = Some (Fin 0)"
  by (cases k rule: falsy.cases) auto

lemma id_equals_iff: "id_equals i k \<longleftrightarrow> k = Some (Fin (of_nat i))"
  by (cases "(i, k)" rule: id_equals.cases) auto

text \<open>
  C6. A \<open>start\<close> in checkpoint mode answers that the mode is already active and returns the
  server as it was: no call of \<open>pool.connect\<close>, no \<open>BEGIN\<close>, the counter and the history
  untouched. Hence a \<open>start\<close> that follows a successful \<open>start\<close> changes nothing.
\<close>

theorem start_while_active_is_noop:
  "(checkpointMode s \<longrightarrow> checkpoint w Start k s = (Inr AlreadyActive, s)) \<and>
   (fst (checkpoint w Start k s) = Inr resp \<longrightarrow>
      checkpoint w' Start k' (snd (checkpoint w Start k s)) =
        (Inr AlreadyActive, snd (checkpoint w Start k s)))"
proof (intro conjI impI)
  assume "checkpointMode s"
  then show "checkpoint w Start k s = (Inr AlreadyActive, s)"
    by (simp add: checkpoint_start_def)
next
  assume "fst (checkpoint w Start k s) = Inr resp"
  then have "checkpointMode (snd (checkpoint w Start k s))"
    by (auto simp: step_defs split: sum.splits if_splits)
  then show "checkpoint w' Start k' (snd (checkpoint w Start k s)) =
               (Inr AlreadyActive, snd (checkpoint w Start k s))"
    by (simp add: checkpoint_start_def)
qed

theorem start_while_active_is_noop_witness:
  "checkpointMode (run calm Write two_writes initial) \<and>
   checkpointHistory (run calm Write two_writes initial) \<noteq> [] \<and>
   checkpoint stormy Start None (run calm Write two_writes initial) =
     (Inr AlreadyActive, run calm Write two_writes initial) \<and>
   fst (checkpoint calm Start None initial) = Inr Started \<and>
   checkpoint stormy Start None (snd (checkpoint calm Start None initial)) =
     (Inr AlreadyActive, snd (checkpoint calm Start None initial))"
proof -
  have active: "checkpointMode (run calm Write two_writes initial)"
    and filled: "checkpointHistory (run calm Write two_writes initial) \<noteq> []"
    by (simp_all add: two_writes_state)
  have started: "fst (checkpoint calm Start None initial) = Inr Started"
    by (simp add: calm_start initial_def)
  show ?thesis
    using start_while_active_is_noop
      [of "run calm Write two_writes initial" stormy None Started stormy None]
      start_while_active_is_noop [of initial calm None Started stormy None]
      active filled started
    by simp
qed

text \<open>
  C8, amended. While the session is idle, \<open>rollback\<close>, \<open>commit\<close> and \<open>discard\<close> fail with
  the no-active-session error and \<open>list\<close> succeeds with the informational answer that no
  session is active; none of the four changes the server or contacts the database.
\<close>

theorem idle_checkpoint_calls:
  assumes "\<not> checkpointMode s"
  shows "checkpoint w Rollback k s = (Inl NoActiveSession, s) \<and>
         checkpoint w Commit k s = (Inl NoActiveSession, s) \<and>
         checkpoint w Discard k s = (Inl NoActiveSession, s) \<and>
         checkpoint w List k s = (Inr NoSessionInfo, s)"
  using assms by (simp add: step_defs)

theorem idle_checkpoint_calls_witness:
  "\<not> checkpointMode initial \<and>
   checkpoint calm Rollback (Some (Fin 1)) initial = (Inl NoActiveSession, initial) \<and>
   checkpoint calm Commit None initial = (Inl NoActiveSession, initial) \<and>
   checkpoint calm Discard None initial = (Inl NoActiveSession, initial) \<and>
   checkpoint calm List None initial = (Inr NoSessionInfo, initial)"
proof -
  have idle: "\<not> checkpointMode initial"
    by (simp add: initial_def)
  have "checkpoint calm Rollback (Some (Fin 1)) initial = (Inl NoActiveSession, initial)"
    using idle_checkpoint_calls [OF idle, of calm "Some (Fin 1)"] by simp
  moreover have "checkpoint calm Commit None initial = (Inl NoActiveSession, initial) \<and>
    checkpoint calm Discard None initial = (Inl NoActiveSession, initial) \<and>
    checkpoint calm List None initial = (Inr NoSessionInfo, initial)"
    using idle_checkpoint_calls [OF idle, of calm None] by simp
  ultimately show ?thesis
    using idle by simp
qed

text \<open>
  The claim as written fails for \<open>list\<close>: on the idle initial server it returns a success
  response.
\<close>

theorem idle_list_succeeds_counterexample:
  "\<not> checkpointMode initial \<and> fst (checkpoint calm List None initial) = Inr NoSessionInfo"
  by (simp add: checkpoint_list_def initial_def)

text \<open>
  C9. In an active session a \<open>rollback\<close> whose \<open>checkpointId\<close> is absent or 0 fails with the
  checkpointId-required error and leaves the server as it was. The checkpoint-not-found
  error arises only when the id is present, is neither 0 nor \<open>NaN\<close>, and equals the id of
  no entry of the history; the server is then unchanged too.
\<close>

theorem rollback_id_guard:
  assumes "active_client s = Some c"
  shows "(k = None \<or> k = Some (Fin 0) \<longrightarrow>
            checkpoint w Rollback k s = (Inl CheckpointIdRequired, s)) \<and>
         (fst (checkpoint w Rollback k s) = Inl (CheckpointNotFound k') \<longrightarrow>
            k' = k \<and> (\<exists>n. k = Some n \<and> n \<noteq> Fin 0 \<and> n \<noteq> NaN) \<and>
            (\<forall>cp\<in>set (checkpointHistory s). Some (Fin (of_nat (cp_id cp))) \<noteq> k) \<and>
            snd (checkpoint w Rollback k s) = s)"
proof (intro conjI impI)
  assume "k = None \<or> k = Some (Fin 0)"
  then have "falsy k" by auto
  with assms show "checkpoint w Rollback k s = (Inl CheckpointIdRequired, s)"
    by (simp add: checkpoint_rollback_def)
next
  assume nf: "fst (checkpoint w Rollback k s) = Inl (CheckpointNotFound k')"
  from nf assms have truthy: "\<not> falsy k"
    by (auto simp: checkpoint_rollback_def)
  from nf assms truthy
  have absent: "find (\<lambda>cp. id_equals (cp_id cp) k) (checkpointHistory s) = None"
    by (auto simp: checkpoint_rollback_def send_def split: option.splits sum.splits)
  from nf assms truthy absent show "k' = k"
    by (simp add: checkpoint_rollback_def)
  from truthy show "\<exists>n. k = Some n \<and> n \<noteq> Fin 0 \<and> n \<noteq> NaN"
    by (cases k) (auto simp: falsy_iff)
  from absent show "\<forall>cp\<in>set (checkpointHistory s). Some (Fin (of_nat (cp_id cp))) \<noteq> k"
    by (auto simp: find_absent id_equals_iff)
  from assms truthy absent show "snd (checkpoint w Rollback k s) = s"
    by (simp add: checkpoint_rollback_def)
qed

theorem rollback_id_guard_witness:
  "active_client (run calm Write two_writes initial) = Some 1 \<and>
   checkpoint calm Rollback None (run calm Write two_writes initial) =
     (Inl CheckpointIdRequired, run calm Write two_writes initial) \<and>
   checkpoint calm Rollback (Some (Fin 0)) (run calm Write two_writes initial) =
     (Inl CheckpointIdRequired, run calm Write two_writes initial) \<and>
   fst (checkpoint calm Rollback (Some (Fin 7)) (run calm Write two_writes initial)) =
     Inl (CheckpointNotFound (Some (Fin 7))) \<and>
   snd (checkpoint calm Rollback (Some (Fin 7)) (run calm Write two_writes initial)) =
     run calm Write two_writes initial"
proof -
  have active: "active_client (run calm Write two_writes initial) = Some 1"
    by (simp add: two_writes_state active_client_def)
  have missing: "fst (checkpoint calm Rollback (Some (Fin 7)) (run calm Write two_writes initial)) =
      Inl (CheckpointNotFound (Some (Fin 7)))"
    by (simp add: two_writes_state checkpoint_rollback_def active_client_def)
  show ?thesis
    using rollback_id_guard [OF active, of None calm]
      rollback_id_guard [OF active, of "Some (Fin 0)" calm]
      rollback_id_guard [OF active, of "Some (Fin 7)" calm "Some (Fin 7)"]
      active missing
    by simp
qed

text \<open>
  C10. When the \<open>COMMIT\<close> of a commit or the \<open>ROLLBACK\<close> of a discard fails in an active
  session, the call throws that error and the server is as before except for the
  statement on the trace: checkpoint mode, history, counter and session client are
  intact, and the client was not released.
\<close>

theorem failed_commit_or_discard_keeps_session:
  assumes "active_client s = Some c"
    and "(a = Commit \<and> q = COMMIT) \<or> (a = Discard \<and> q = ROLLBACK)"
    and "client_query w (trace s) c q = Inl e"
  shows "checkpoint w a k s = (Inl (Thrown e), s\<lparr>trace := trace s @ [Query c q]\<rparr>)"
  using assms by (auto simp: checkpoint_end_def send_def emit_def)

theorem failed_commit_or_discard_keeps_session_witness:
  "active_client (run calm Write two_writes initial) = Some 1 \<and>
   client_query stormy (trace (run calm Write two_writes initial)) 1 ROLLBACK =
     Inl (PgError (js ''connection lost'')) \<and>
   checkpoint stormy Discard None (run calm Write two_writes initial) =
     (Inl (Thrown (PgError (js ''connection lost''))),
      (run calm Write two_writes initial)
        \<lparr>trace := trace (run calm Write two_writes initial) @ [Query 1 ROLLBACK]\<rparr>)"
proof -
  have active: "active_client (run calm Write two_writes initial) = Some 1"
    by (simp add: two_writes_state active_client_def)
  have which: "(Discard = Commit \<and> ROLLBACK = COMMIT) \<or> (Discard = Discard \<and> ROLLBACK = ROLLBACK)"
    by simp
  have fails: "client_query stormy (trace (run calm Write two_writes initial)) 1 ROLLBACK =
      Inl (PgError (js ''connection lost''))"
    by (simp add: stormy_def)
  show ?thesis
    using failed_commit_or_discard_keeps_session [OF active which fails, of None] active fails
    by simp
qed



lemma history_of_five:
  assumes "map cp_id h = [1, 2, 3, 4, 5]"
  obtains a b c d e where "h = [a, b, c, d, e]" "cp_id a = 1" "cp_id b = 2" "cp_id c = 3"
    "cp_id d = 4" "cp_id e = 5"
  using assms by (auto simp: map_eq_Cons_conv)

text \<open>
  C4. In an active session whose history holds the ids 1 to 5, a rollback to 3 that the
  database accepts leaves the ids 1, 2, 3. A following rollback to 5 fails with the
  checkpoint-not-found error, whatever the database would answer, and returns the server
  as it was: history, counter and trace unchanged, the session still active.
\<close>

theorem rollback_truncates_then_not_found:
  assumes "active_client s = Some c"
    and "map cp_id (checkpointHistory s) = [1, 2, 3, 4, 5]"
    and "client_query w (trace s) c (ROLLBACK_TO_SAVEPOINT (Some (Fin 3))) = Inr res"
  shows "map cp_id (checkpointHistory (snd (checkpoint w Rollback (Some (Fin 3)) s))) = [1, 2, 3] \<and>
         checkpoint w' Rollback (Some (Fin 5)) (snd (checkpoint w Rollback (Some (Fin 3)) s)) =
           (Inl (CheckpointNotFound (Some (Fin 5))), snd (checkpoint w Rollback (Some (Fin 3)) s)) \<and>
         active_client (snd (checkpoint w Rollback (Some (Fin 3)) s)) = Some c \<and>
         checkpointCounter (snd (checkpoint w Rollback (Some (Fin 3)) s)) = checkpointCounter s"
proof -
  from assms(2) obtain a b c' d e where
    h: "checkpointHistory s = [a, b, c', d, e]" "cp_id a = 1" "cp_id b = 2" "cp_id c' = 3"
    "cp_id d = 4" "cp_id e = 5"
    by (rule history_of_five)
  have step: "checkpoint w Rollback (Some (Fin 3)) s =
      (Inr (RolledBack (Some (Fin 3)) (cp_query c')),
       s\<lparr>trace := trace s @ [Query c (ROLLBACK_TO_SAVEPOINT (Some (Fin 3)))],
         checkpointHistory := [a, b, c']\<rparr>)"
    using assms(1,3) h by (simp add: checkpoint_rollback_def send_def emit_def)
  have active: "active_client (s\<lparr>trace := trace s @ [Query c (ROLLBACK_TO_SAVEPOINT (Some (Fin 3)))],
         checkpointHistory := [a, b, c']\<rparr>) = Some c"
    using assms(1) by (simp add: active_client_def split: if_splits)
  show ?thesis
    unfolding step using h active by (simp add: checkpoint_rollback_def)
qed

lemma five_writes_state:
  "run calm Write five_writes initial =
     \<lparr>sessionClient = Some 1, checkpointMode = True,
      checkpointHistory =
        [\<lparr>cp_id = 1, cp_query = insert_sql, cp_timestamp = new_year\<rparr>,
         \<lparr>cp_id = 2, cp_query = insert_sql, cp_timestamp = new_year\<rparr>,
         \<lparr>cp_id = 3, cp_query = insert_sql, cp_timestamp = new_year\<rparr>,
         \<lparr>cp_id = 4, cp_query = insert_sql, cp_timestamp = new_year\<rparr>,
         \<lparr>cp_id = 5, cp_query = insert_sql, cp_timestamp = new_year\<rparr>],
      checkpointCounter = 5,
      trace = [PoolConnect, Query 1 BEGIN,
               Query 1 (SQL insert_sql), Query 1 (SAVEPOINT 1),
               Query 1 (SQL insert_sql), Query 1 (SAVEPOINT 2),
               Query 1 (SQL insert_sql), Query 1 (SAVEPOINT 3),
               Query 1 (SQL insert_sql), Query 1 (SAVEPOINT 4),
               Query 1 (SQL insert_sql), Query 1 (SAVEPOINT 5)]\<rparr>"
  by (simp add: five_writes_def calm_eval)

theorem rollback_truncates_then_not_found_witness:
  "active_client (run calm Write five_writes initial) = Some 1 \<and>
   map cp_id (checkpointHistory (run calm Write five_writes initial)) = [1, 2, 3, 4, 5] \<and>
   map cp_id (checkpointHistory
     (snd (checkpoint calm Rollback (Some (Fin 3)) (run calm Write five_writes initial)))) =
     [1, 2, 3] \<and>
   checkpoint stormy Rollback (Some (Fin 5))
     (snd (checkpoint calm Rollback (Some (Fin 3)) (run calm Write five_writes initial))) =
     (Inl (CheckpointNotFound (Some (Fin 5))),
      snd (checkpoint calm Rollback (Some (Fin 3)) (run calm Write five_writes initial))) \<and>
   checkpointCounter
     (snd (checkpoint calm Rollback (Some (Fin 3)) (run calm Write five_writes initial))) = 5"
proof -
  have active: "active_client (run calm Write five_writes initial) = Some 1"
    by (simp add: five_writes_state active_client_def)
  have ids: "map cp_id (checkpointHistory (run calm Write five_writes initial)) = [1, 2, 3, 4, 5]"
    by (simp add: five_writes_state)
  have accepted: "client_query calm (trace (run calm Write five_writes initial)) 1
      (ROLLBACK_TO_SAVEPOINT (Some (Fin 3))) = Inr \<lparr>rows = [], rowCount = Some 1\<rparr>"
    by (simp add: calm_def)
  have counter: "checkpointCounter (run calm Write five_writes initial) = 5"
    by (simp add: five_writes_state)
  show ?thesis
    using rollback_truncates_then_not_found [OF active ids accepted, of stormy] active ids counter
    by simp
qed

subsection \<open>The query tool in normal mode\<close>




subsection \<open>The history and the counter along a run\<close>

























end
